theory Spec2Isabelle
  imports Main "HOL-Library.Sublist" "HOL-Library.Char_ord" "HOL-Library.List_Lexorder"
begin

section \<open>Data model (src/src/App.tsx, lines 4-12)\<close>

text \<open>
  The \<open>User\<close> interface. The two nested objects \<open>address: { city }\<close> and
  \<open>company: { name }\<close> have one field each and are flattened into \<open>address_city\<close>
  and \<open>company_name\<close>. The field \<open>id\<close> is written \<open>id'\<close>, since \<open>id\<close> is the
  identity function of HOL.

  A JavaScript string is a sequence of UTF-16 code units. It is modelled as a
  \<open>string\<close>, a list of \<open>char\<close>, each \<open>char\<close> standing for the code unit of the
  same number; the model therefore covers the strings whose code units are below 256
  (ASCII and Latin-1).
\<close>

record User =
  id' :: nat
  name :: string
  email :: string
  address_city :: string
  company_name :: string
  phone :: string
  website :: string

section \<open>The string operations of the runtime that the component calls\<close>

text \<open>A string used as a condition is true exactly when it is not empty.\<close>

definition truthy :: "string \<Rightarrow> bool" where
  "truthy s = (s \<noteq> [])"

text \<open>
  \<open>String.prototype.toLowerCase\<close>: on code units below 256 it works unit by unit,
  moving \<open>A..Z\<close> (65..90) and the Latin-1 capitals (192..222 without the
  multiplication sign 215) up by 32.
\<close>

definition lower_unit :: "char \<Rightarrow> char" where
  "lower_unit c =
     (let n = (of_char c :: nat)
      in if (65 \<le> n \<and> n \<le> 90) \<or> (192 \<le> n \<and> n \<le> 222 \<and> n \<noteq> 215)
         then char_of (n + 32) else c)"

definition toLowerCase :: "string \<Rightarrow> string" where
  "toLowerCase s = map lower_unit s"

text \<open>
  \<open>String.prototype.trim\<close> removes white space and line terminators from both ends.
  Below 256 these are TAB, LF, VT, FF, CR, SP and NBSP.
\<close>

definition isWhiteSpace :: "char \<Rightarrow> bool" where
  "isWhiteSpace c = ((of_char c :: nat) \<in> {9, 10, 11, 12, 13, 32, 160})"

definition trimStart :: "string \<Rightarrow> string" where
  "trimStart s = dropWhile isWhiteSpace s"

definition trimEnd :: "string \<Rightarrow> string" where
  "trimEnd s = rev (dropWhile isWhiteSpace (rev s))"

definition trim :: "string \<Rightarrow> string" where
  "trim s = trimEnd (trimStart s)"

text \<open>
  \<open>s.startsWith(p)\<close> compares \<open>p\<close> with the first \<open>p.length\<close> code units of \<open>s\<close>;
  \<open>s.includes(p)\<close> looks for \<open>p\<close> at every position of \<open>s\<close>, from the left
  (written \<open>includes'\<close>: \<open>includes\<close> is a keyword of Isabelle).
\<close>

definition startsWith :: "string \<Rightarrow> string \<Rightarrow> bool" where
  "startsWith s p = (take (length p) s = p)"

fun includes' :: "string \<Rightarrow> string \<Rightarrow> bool" where
  "includes' [] p = startsWith [] p"
| "includes' (c # cs) p = (startsWith (c # cs) p \<or> includes' cs p)"

section \<open>Filter engine (src/src/App.tsx, lines 57-76)\<close>

text \<open>
  \<open>new Set(xs)\<close> adds the elements of \<open>xs\<close> from left to right and keeps the first
  occurrence of each; \<open>Array.from\<close> lists the set in insertion order. The set is
  modelled by that list.
\<close>

definition Set_add :: "'a list \<Rightarrow> 'a \<Rightarrow> 'a list" where
  "Set_add s x = (if x \<in> set s then s else s @ [x])"

definition new_Set :: "'a list \<Rightarrow> 'a list" where
  "new_Set xs = foldl Set_add [] xs"

definition Array_from :: "'a list \<Rightarrow> 'a list" where
  "Array_from s = s"

text \<open>
  \<open>Array.prototype.sort\<close> without a comparator orders strings by their code units,
  lexicographically, a proper prefix first. That is the order of \<open>string\<close> given by
  \<open>List_Lexorder\<close> over \<open>Char_ord\<close>. All elements are distinct when it is called
  here, so the result does not depend on the algorithm of the engine.
\<close>

definition sort_default :: "string list \<Rightarrow> string list" where
  "sort_default xs = sort xs"

definition cityOptions :: "User list \<Rightarrow> string list" where
  "cityOptions users = sort_default (Array_from (new_Set (map (\<lambda>u. address_city u) users)))"

definition companyOptions :: "User list \<Rightarrow> string list" where
  "companyOptions users = sort_default (Array_from (new_Set (map (\<lambda>u. company_name u) users)))"

text \<open>
  The memoised value \<open>filteredUsers\<close>, as a function of its dependencies
  \<open>[users, search, city, company]\<close>.
\<close>

definition filteredUsers :: "User list \<Rightarrow> string \<Rightarrow> string \<Rightarrow> string \<Rightarrow> User list" where
  "filteredUsers users search city company =
     (let s = toLowerCase (trim search)
      in filter (\<lambda>u.
           let byName = (if truthy s then includes' (toLowerCase (name u)) s else True);
               byCity = (if truthy city then address_city u = city else True);
               byCompany = (if truthy company then company_name u = company else True)
           in byName \<and> byCity \<and> byCompany) users)"

text \<open>The link target of a card (lines 205-207).\<close>

definition site :: "User \<Rightarrow> string" where
  "site u = (if startsWith (website u) ''http'' then website u else ''https://'' @ website u)"

section \<open>Component state (lines 15-23 and 78-82)\<close>

text \<open>
  The six \<open>useState\<close> cells of \<open>App\<close>. \<open>error\<close> has type \<open>string | null\<close>;
  \<open>None\<close> is \<open>null\<close>.
\<close>

record App =
  users :: "User list"
  loading :: bool
  error :: "string option"
  search :: string
  city :: string
  company :: string

definition initial :: App where
  "initial = \<lparr>users = [], loading = True, error = None, search = [], city = [], company = []\<rparr>"

definition setUsers :: "User list \<Rightarrow> App \<Rightarrow> App" where
  "setUsers v a = a\<lparr>users := v\<rparr>"

definition setLoading :: "bool \<Rightarrow> App \<Rightarrow> App" where
  "setLoading v a = a\<lparr>loading := v\<rparr>"

definition setError :: "string option \<Rightarrow> App \<Rightarrow> App" where
  "setError v a = a\<lparr>error := v\<rparr>"

definition setSearch :: "string \<Rightarrow> App \<Rightarrow> App" where
  "setSearch v a = a\<lparr>search := v\<rparr>"

definition setCity :: "string \<Rightarrow> App \<Rightarrow> App" where
  "setCity v a = a\<lparr>city := v\<rparr>"

definition setCompany :: "string \<Rightarrow> App \<Rightarrow> App" where
  "setCompany v a = a\<lparr>company := v\<rparr>"

text \<open>The three updates of \<open>clearAll\<close> run in one event handler, in this order.\<close>

definition clearAll :: "App \<Rightarrow> App" where
  "clearAll a = setCompany [] (setCity [] (setSearch [] a))"

text \<open>The derived values of a render, read from the state cells they depend on.\<close>

definition filteredUsers_of :: "App \<Rightarrow> User list" where
  "filteredUsers_of a = filteredUsers (users a) (search a) (city a) (company a)"

section \<open>Load cycle (lines 26-55)\<close>

text \<open>
  A value that reaches \<open>catch (err: any)\<close>: \<open>null\<close> or \<open>undefined\<close>, or a value
  whose \<open>name\<close> and \<open>message\<close> properties are strings or missing. \<open>err?.name\<close> and
  \<open>err?.message\<close> are \<open>undefined\<close> (\<open>None\<close>) on the former.
\<close>

datatype thrown = Nullish | Obj "string option" "string option"

fun err_name :: "thrown \<Rightarrow> string option" where
  "err_name Nullish = None"
| "err_name (Obj n m) = n"

fun err_message :: "thrown \<Rightarrow> string option" where
  "err_message Nullish = None"
| "err_message (Obj n m) = m"

text \<open>\<open>new Error(m)\<close>, and the rejection reason of a signal aborted by \<open>abort()\<close>.\<close>

definition Error :: "string \<Rightarrow> thrown" where
  "Error m = Obj (Some ''Error'') (Some m)"

definition AbortError :: thrown where
  "AbortError = Obj (Some ''AbortError'') (Some ''signal is aborted without reason'')"

text \<open>The two properties of the response that the effect reads.\<close>

record Response =
  ok :: bool
  status :: nat

text \<open>A non-negative integer inside a template literal: its decimal digits.\<close>

definition digit :: "nat \<Rightarrow> char" where
  "digit d = char_of (48 + d)"

fun toString :: "nat \<Rightarrow> string" where
  "toString n = (if n < 10 then [digit n] else toString (n div 10) @ [digit (n mod 10)])"

text \<open>
  The asynchronous function is suspended at one of its three \<open>await\<close>s or has run to
  its end. The timer of the third \<open>await\<close> holds the parsed \<open>data\<close>.
\<close>

datatype pc = AwaitFetch | AwaitJson | AwaitDelay "User list" | Done

record Cycle =
  app :: App
  aborted :: bool
  pc :: pc

text \<open>Lines 43-46 and 47-51.\<close>

definition catch_block :: "thrown \<Rightarrow> App \<Rightarrow> App" where
  "catch_block err a =
     (if err_name err \<noteq> Some ''AbortError''
      then setError (Some (case err_message err of Some m \<Rightarrow> m
                                                  | None \<Rightarrow> ''Failed to load users'')) a
      else a)"

definition finally_block :: "bool \<Rightarrow> App \<Rightarrow> App" where
  "finally_block sig_aborted a = (if \<not> sig_aborted then setLoading False a else a)"

text \<open>An exception inside \<open>try\<close>: the handler, then \<open>finally\<close>, and the function ends.\<close>

definition throw :: "thrown \<Rightarrow> Cycle \<Rightarrow> Cycle" where
  "throw err st =
     st\<lparr>app := finally_block (aborted st) (catch_block err (app st)), pc := Done\<rparr>"

text \<open>
  Mounting runs the effect up to its first \<open>await\<close>: lines 30, 31 and the call of
  \<open>fetch\<close>.
\<close>

definition mount :: Cycle where
  "mount = \<lparr>app = setError None (setLoading True initial), aborted = False, pc = AwaitFetch\<rparr>"

text \<open>
  What can happen to the mounted component: a promise it awaits settles, the timer
  fires, the clean-up of the effect calls \<open>controller.abort()\<close>, or the user changes a
  filter. \<open>step\<close> is \<open>None\<close> where the event cannot occur:
  \<^item> a promise settles only while it is awaited;
  \<^item> \<open>fetch\<close> and \<open>res.json()\<close> take the signal: once it is aborted they reject with
    \<open>AbortError\<close>, and before that they do not;
  \<^item> the timer of line 40 does not take the signal, and fires in either case;
  \<^item> the clean-up is the unmount, so no input follows it; the clear button is disabled
    while the three filters are empty; a \<open>select\<close> offers the empty value and its
    options.
\<close>

datatype event =
    FetchSettled "thrown + Response"
  | JsonSettled "thrown + User list"
  | TimerFired
  | Abort
  | ChangeSearch string
  | ChangeCity string
  | ChangeCompany string
  | ClickClear

definition rejection_admitted :: "Cycle \<Rightarrow> thrown \<Rightarrow> bool" where
  "rejection_admitted st err =
     (if aborted st then err = AbortError else err_name err \<noteq> Some ''AbortError'')"

fun step :: "event \<Rightarrow> Cycle \<Rightarrow> Cycle option" where
  "step (FetchSettled r) st =
     (if pc st \<noteq> AwaitFetch then None
      else case r of
             Inl err \<Rightarrow> if rejection_admitted st err then Some (throw err st) else None
           | Inr res \<Rightarrow>
               if aborted st then None
               else if \<not> ok res
                 then Some (throw (Error (''HTTP '' @ toString (status res))) st)
                 else Some (st\<lparr>pc := AwaitJson\<rparr>))"
| "step (JsonSettled r) st =
     (if pc st \<noteq> AwaitJson then None
      else case r of
             Inl err \<Rightarrow> if rejection_admitted st err then Some (throw err st) else None
           | Inr data \<Rightarrow> if aborted st then None else Some (st\<lparr>pc := AwaitDelay data\<rparr>))"
| "step TimerFired st =
     (case pc st of
        AwaitDelay data \<Rightarrow>
          Some (st\<lparr>app := finally_block (aborted st) (setUsers data (app st)), pc := Done\<rparr>)
      | _ \<Rightarrow> None)"
| "step Abort st = Some (st\<lparr>aborted := True\<rparr>)"
| "step (ChangeSearch v) st =
     (if aborted st then None else Some (st\<lparr>app := setSearch v (app st)\<rparr>))"
| "step (ChangeCity v) st =
     (if aborted st then None
      else if v = [] \<or> v \<in> set (cityOptions (users (app st)))
        then Some (st\<lparr>app := setCity v (app st)\<rparr>)
        else None)"
| "step (ChangeCompany v) st =
     (if aborted st then None
      else if v = [] \<or> v \<in> set (companyOptions (users (app st)))
        then Some (st\<lparr>app := setCompany v (app st)\<rparr>)
        else None)"
| "step ClickClear st =
     (if aborted st then None
      else if \<not> truthy (search (app st)) \<and> \<not> truthy (city (app st))
              \<and> \<not> truthy (company (app st))
        then None
        else Some (st\<lparr>app := clearAll (app st)\<rparr>))"

fun run :: "event list \<Rightarrow> Cycle \<Rightarrow> Cycle option" where
  "run [] st = Some st"
| "run (e # es) st = (case step e st of None \<Rightarrow> None | Some st' \<Rightarrow> run es st')"

section \<open>What a render shows (lines 177-245)\<close>

text \<open>
  \<open>error && ...\<close> and \<open>!error\<close> test a \<open>string | null\<close>: \<open>null\<close> and the empty string
  are false.
\<close>

definition truthy_error :: "string option \<Rightarrow> bool" where
  "truthy_error e = (case e of None \<Rightarrow> False | Some m \<Rightarrow> truthy m)"

text \<open>
  The blocks of the returned markup whose presence depends on the state: the count line,
  the loading line, the error alert (with the message it shows), the list of cards
  (each user with its link target) and the no-results line.
\<close>

record Rendered =
  countShown :: nat
  countTotal :: nat
  loadingShown :: bool
  errorAlert :: "string option"
  resultsList :: "(User \<times> string) list option"
  noResults :: bool

definition render :: "App \<Rightarrow> Rendered" where
  "render a =
     \<lparr>countShown = length (filteredUsers_of a),
      countTotal = length (users a),
      loadingShown = loading a,
      errorAlert = (case error a of None \<Rightarrow> None
                    | Some m \<Rightarrow> if truthy m then Some m else None),
      resultsList =
        (if \<not> loading a \<and> \<not> truthy_error (error a) \<and> length (filteredUsers_of a) > 0
         then Some (map (\<lambda>u. (u, site u)) (filteredUsers_of a)) else None),
      noResults =
        (\<not> loading a \<and> \<not> truthy_error (error a) \<and> length (users a) > 0
         \<and> length (filteredUsers_of a) = 0)\<rparr>"

section \<open>Sample data\<close>

text \<open>The first two records that the endpoint returns.\<close>

definition leanne :: User where
  "leanne = \<lparr>id' = 1, name = ''Leanne Graham'', email = ''Sincere@april.biz'',
     address_city = ''Gwenborough'', company_name = ''Romaguera-Crona'',
     phone = ''1-770-736-8031 x56442'', website = ''hildegard.org''\<rparr>"

definition ervin :: User where
  "ervin = \<lparr>id' = 2, name = ''Ervin Howell'', email = ''Shanna@melissa.tv'',
     address_city = ''Wisokyburgh'', company_name = ''Deckow-Crist'',
     phone = ''010-692-6593 x09125'', website = ''anastasia.net''\<rparr>"

text \<open>A record without a city, as the type \<open>string\<close> allows.\<close>

definition nowhere :: User where
  "nowhere = \<lparr>id' = 3, name = ''Clementine Bauch'', email = ''Nathan@yesenia.net'',
     address_city = [], company_name = [],
     phone = ''1-463-123-4447'', website = ''https://ramiro.info''\<rparr>"

section \<open>Facts about the string operations\<close>

lemma startsWith_prefix: "startsWith s p = prefix p s"
proof
  assume "startsWith s p"
  then have "take (length p) s = p" by (simp add: startsWith_def)
  then show "prefix p s" using take_is_prefix [of "length p" s] by simp
next
  assume "prefix p s"
  then obtain r where "s = p @ r" by (auto simp: prefix_def)
  then show "startsWith s p" by (simp add: startsWith_def)
qed

lemma includes_sublist: "includes' s p = sublist p s"
  by (induction s) (simp_all add: startsWith_prefix sublist_Cons_right)

lemma toLowerCase_empty: "(toLowerCase s = []) = (s = [])"
  by (simp add: toLowerCase_def)

lemma trim_empty: "trim [] = []"
  by (simp add: trim_def trimStart_def trimEnd_def)

section \<open>Facts about the filter engine\<close>

lemma foldl_Set_add_set: "set (foldl Set_add acc xs) = set acc \<union> set xs"
  by (induction xs arbitrary: acc) (auto simp: Set_add_def)

lemma foldl_Set_add_distinct: "distinct acc \<Longrightarrow> distinct (foldl Set_add acc xs)"
  by (induction xs arbitrary: acc) (auto simp: Set_add_def)

lemma set_new_Set: "set (new_Set xs) = set xs"
  by (simp add: new_Set_def foldl_Set_add_set)

lemma distinct_new_Set: "distinct (new_Set xs)"
  by (simp add: new_Set_def foldl_Set_add_distinct)

lemma set_cityOptions: "set (cityOptions us) = address_city ` set us"
  by (simp add: cityOptions_def sort_default_def Array_from_def set_new_Set)

lemma set_companyOptions: "set (companyOptions us) = company_name ` set us"
  by (simp add: companyOptions_def sort_default_def Array_from_def set_new_Set)

text \<open>The callback of \<open>filter\<close>, with the conditionals resolved.\<close>

lemma filteredUsers_filter:
  "filteredUsers us q c k =
     filter (\<lambda>u. (trim q = [] \<or> sublist (toLowerCase (trim q)) (toLowerCase (name u)))
               \<and> (c = [] \<or> address_city u = c) \<and> (k = [] \<or> company_name u = k)) us"
  unfolding filteredUsers_def Let_def truthy_def
  by (rule filter_cong) (auto simp: includes_sublist toLowerCase_empty)

lemma filteredUsers_no_filter: "filteredUsers us [] [] [] = us"
  by (simp add: filteredUsers_filter trim_empty)

lemma filteredUsers_city_only:
  "v \<noteq> [] \<Longrightarrow> filteredUsers us [] v [] = filter (\<lambda>u. address_city u = v) us"
  by (simp add: filteredUsers_filter trim_empty)

lemma filteredUsers_company_only:
  "w \<noteq> [] \<Longrightarrow> filteredUsers us [] [] w = filter (\<lambda>u. company_name u = w) us"
  by (simp add: filteredUsers_filter trim_empty)

section \<open>Claims about the filter engine\<close>

text \<open>
  C1. For every source collection and every filter state, a record is in
  \<open>filteredUsers\<close> if and only if it is in the source collection and all three
  predicates hold: the name query is empty or the lower-cased name contains the
  lower-cased, trimmed query as a contiguous substring; the selected city is empty or
  equals the record's city; the selected company is empty or equals the record's
  company name.
\<close>

theorem filteredUsers_iff:
  "u \<in> set (filteredUsers us q c k) \<longleftrightarrow>
     u \<in> set us
     \<and> (q = [] \<or> sublist (toLowerCase (trim q)) (toLowerCase (name u)))
     \<and> (c = [] \<or> address_city u = c)
     \<and> (k = [] \<or> company_name u = k)"
proof -
  have "trim q = [] \<Longrightarrow> sublist (toLowerCase (trim q)) (toLowerCase (name u))"
    by (simp add: toLowerCase_def)
  moreover have "q = [] \<Longrightarrow> trim q = []"
    by (simp add: trim_empty)
  ultimately show ?thesis
    unfolding filteredUsers_filter by auto
qed

text \<open>
  C4. For every source collection, \<open>cityOptions\<close> and \<open>companyOptions\<close> have no
  duplicates, hold exactly the city values (company names) that occur in the
  collection, and are sorted ascending in the lexicographic order of strings. Both are
  functions of the source collection alone.
\<close>

theorem options_distinct_sorted:
  "distinct (cityOptions us) \<and> set (cityOptions us) = set (map address_city us)
     \<and> sorted (cityOptions us)
   \<and> distinct (companyOptions us) \<and> set (companyOptions us) = set (map company_name us)
     \<and> sorted (companyOptions us)"
  by (simp add: cityOptions_def companyOptions_def sort_default_def Array_from_def
      set_new_Set distinct_new_Set)

text \<open>
  C5. For every state, after \<open>clearAll\<close> the three filters are empty, the source
  collection is the one before, and \<open>filteredUsers\<close> is the whole source collection.
\<close>

theorem clearAll_shows_all:
  "search (clearAll a) = [] \<and> city (clearAll a) = [] \<and> company (clearAll a) = []
   \<and> users (clearAll a) = users a
   \<and> filteredUsers_of (clearAll a) = users a"
  by (simp add: clearAll_def setSearch_def setCity_def setCompany_def filteredUsers_of_def
      filteredUsers_no_filter)

text \<open>
  C6. For every source collection and every filter state, \<open>filteredUsers\<close> is a
  subsequence of the source collection: the records kept stand in the order of the
  source, and every one of them comes from the source.
\<close>

theorem filteredUsers_subseq:
  "subseq (filteredUsers us q c k) us \<and> set (filteredUsers us q c k) \<subseteq> set us"
  by (simp add: filteredUsers_filter)

text \<open>
  C8. For every user record, the link target is the website unchanged when \<open>http\<close> is
  a prefix of it, and \<open>https://\<close> followed by the website otherwise.
\<close>

theorem site_prefix:
  "site u = (if prefix ''http'' (website u) then website u else ''https://'' @ website u)"
  by (simp add: site_def startsWith_prefix)

text \<open>
  C9, as the claim states it, fails on a record whose city is the empty string: the
  empty string is then an option, and selecting it is selecting no city, so the record
  of another city passes the filter too.
\<close>

theorem option_soundness_counterexample:
  "[] \<in> set (cityOptions [nowhere, leanne])
   \<and> filteredUsers [nowhere, leanne] [] [] [] = [nowhere, leanne]
   \<and> filter (\<lambda>u. address_city u = []) [nowhere, leanne] = [nowhere]"
  by (simp add: set_cityOptions filteredUsers_no_filter nowhere_def leanne_def)

text \<open>
  C9, amended. For every source collection and every non-empty value \<open>v\<close> of
  \<open>cityOptions\<close>, filtering with that city selected and the other two filters empty
  gives exactly the records whose city is \<open>v\<close>, and at least one; the same holds for
  every non-empty value \<open>w\<close> of \<open>companyOptions\<close> and the company filter.
\<close>

theorem option_soundness:
  "(v \<in> set (cityOptions us) \<and> v \<noteq> [] \<longrightarrow>
      filteredUsers us [] v [] = filter (\<lambda>u. address_city u = v) us
      \<and> filteredUsers us [] v [] \<noteq> [])
   \<and> (w \<in> set (companyOptions us) \<and> w \<noteq> [] \<longrightarrow>
      filteredUsers us [] [] w = filter (\<lambda>u. company_name u = w) us
      \<and> filteredUsers us [] [] w \<noteq> [])"
proof -
  have "filter (\<lambda>u. address_city u = v) us \<noteq> []" if "v \<in> set (cityOptions us)"
    using that by (auto simp: set_cityOptions filter_empty_conv)
  moreover have "filter (\<lambda>u. company_name u = w) us \<noteq> []" if "w \<in> set (companyOptions us)"
    using that by (auto simp: set_companyOptions filter_empty_conv)
  ultimately show ?thesis
    by (simp add: filteredUsers_city_only filteredUsers_company_only)
qed

theorem option_soundness_witness:
  "''Gwenborough'' \<in> set (cityOptions [leanne, ervin]) \<and> ''Gwenborough'' \<noteq> []
   \<and> filteredUsers [leanne, ervin] [] ''Gwenborough'' [] = [leanne]
   \<and> ''Deckow-Crist'' \<in> set (companyOptions [leanne, ervin]) \<and> ''Deckow-Crist'' \<noteq> []
   \<and> filteredUsers [leanne, ervin] [] [] ''Deckow-Crist'' = [ervin]"
proof -
  have c: "''Gwenborough'' \<in> set (cityOptions [leanne, ervin])"
    by (simp add: set_cityOptions leanne_def)
  have k: "''Deckow-Crist'' \<in> set (companyOptions [leanne, ervin])"
    by (simp add: set_companyOptions ervin_def)
  have "filter (\<lambda>u. address_city u = ''Gwenborough'') [leanne, ervin] = [leanne]"
    by (simp add: leanne_def ervin_def)
  moreover have "filter (\<lambda>u. company_name u = ''Deckow-Crist'') [leanne, ervin] = [ervin]"
    by (simp add: leanne_def ervin_def)
  ultimately show ?thesis
    using c k option_soundness [of "''Gwenborough''" "[leanne, ervin]" "''Deckow-Crist''"]
    by simp
qed

section \<open>Facts about the load cycle\<close>

declare toString.simps [simp del]

text \<open>
  Until the asynchronous function has ended, the source collection is the empty list
  of \<open>useState\<close>: the only call of \<open>setUsers\<close> is the last statement of \<open>try\<close>.
\<close>

lemma step_pending_users:
  assumes "step e st = Some st'" and "pc st \<noteq> Done \<longrightarrow> users (app st) = []"
  shows "pc st' \<noteq> Done \<longrightarrow> users (app st') = []"
  using assms
  by (cases e)
     (auto simp: throw_def setSearch_def setCity_def setCompany_def clearAll_def
           split: if_splits sum.splits pc.splits)

lemma run_pending_users:
  "run es st = Some st' \<Longrightarrow> pc st \<noteq> Done \<longrightarrow> users (app st) = []
     \<Longrightarrow> pc st' \<noteq> Done \<longrightarrow> users (app st') = []"
proof (induction es arbitrary: st)
  case Nil
  then show ?case by simp
next
  case (Cons e es)
  from Cons.prems(1) obtain mid where
    mid: "step e st = Some mid" and rest: "run es mid = Some st'"
    by (auto split: option.splits)
  from step_pending_users [OF mid Cons.prems(2)] have "pc mid \<noteq> Done \<longrightarrow> users (app mid) = []" .
  with Cons.IH [OF rest] show ?case by simp
qed

lemma mount_pending_users: "run es mount = Some st \<Longrightarrow> pc st \<noteq> Done \<Longrightarrow> users (app st) = []"
  using run_pending_users [of es mount st] by (simp add: mount_def initial_def setError_def setLoading_def)

lemma filteredUsers_Nil: "filteredUsers [] q c k = []"
  by (simp add: filteredUsers_def)

text \<open>
  The part of the cancellation contract that the effect keeps. An abort while the
  request or the body is awaited ends the function with the state cells untouched, and
  an abort during the delay leaves \<open>loading\<close> and \<open>error\<close> as they are.
\<close>

lemma abort_during_request_ends:
  "aborted st \<Longrightarrow> pc st = AwaitFetch \<Longrightarrow>
     step (FetchSettled (Inl AbortError)) st = Some (st\<lparr>pc := Done\<rparr>)"
  by (simp add: rejection_admitted_def throw_def catch_block_def finally_block_def
      AbortError_def)

lemma abort_during_json_ends:
  "aborted st \<Longrightarrow> pc st = AwaitJson \<Longrightarrow>
     step (JsonSettled (Inl AbortError)) st = Some (st\<lparr>pc := Done\<rparr>)"
  by (simp add: rejection_admitted_def throw_def catch_block_def finally_block_def
      AbortError_def)

lemma abort_during_request_silent:
  "aborted st \<Longrightarrow> step (FetchSettled r) st = Some st' \<or> step (JsonSettled r') st = Some st'
     \<Longrightarrow> app st' = app st"
  by (auto simp: rejection_admitted_def throw_def catch_block_def finally_block_def
        AbortError_def split: if_splits sum.splits)

lemma abort_during_delay_flags:
  "aborted st \<Longrightarrow> step TimerFired st = Some st'
     \<Longrightarrow> loading (app st') = loading (app st) \<and> error (app st') = error (app st)"
  by (auto simp: finally_block_def setUsers_def split: pc.splits)

section \<open>Claims about the load cycle\<close>

text \<open>
  C2 fails on the code for an abort during the delay. The timer of line 40 is not tied
  to the signal and line 42 is not guarded, so after a successful request and parse,
  an abort and then the timer, \<open>setUsers\<close> stores the fetched collection; only
  \<open>setLoading\<close> is skipped.
\<close>

theorem abort_during_delay_stores_users:
  "run [FetchSettled (Inr \<lparr>ok = True, status = 200\<rparr>), JsonSettled (Inr [leanne, ervin]),
        Abort] mount
     = Some \<lparr>app = \<lparr>users = [], loading = True, error = None, search = [], city = [],
                    company = []\<rparr>,
             aborted = True, pc = AwaitDelay [leanne, ervin]\<rparr>
   \<and> run [FetchSettled (Inr \<lparr>ok = True, status = 200\<rparr>), JsonSettled (Inr [leanne, ervin]),
          Abort, TimerFired] mount
     = Some \<lparr>app = \<lparr>users = [leanne, ervin], loading = True, error = None, search = [],
                    city = [], company = []\<rparr>,
             aborted = True, pc = Done\<rparr>"
  by (simp add: mount_def initial_def setError_def setLoading_def setUsers_def
      finally_block_def)

text \<open>
  C3. In every state that the mounted component reaches with the request pending and
  not aborted, a response whose \<open>ok\<close> is false ends the load cycle with \<open>loading\<close>
  false and the error message \<open>HTTP\<close>, a space and the decimal status; the source
  collection and the filtered collection are empty.
\<close>

theorem http_error_status:
  assumes "run es mount = Some st" and "pc st = AwaitFetch" and "\<not> aborted st"
    and "\<not> ok res"
  shows "\<exists>st'. step (FetchSettled (Inr res)) st = Some st'
           \<and> pc st' = Done \<and> \<not> loading (app st')
           \<and> error (app st') = Some (''HTTP '' @ toString (status res))
           \<and> users (app st') = [] \<and> filteredUsers_of (app st') = []"
proof -
  from assms(1,2) have "users (app st) = []"
    using mount_pending_users [of es st] by simp
  with assms(2,3,4) show ?thesis
    by (simp add: throw_def Error_def catch_block_def finally_block_def setError_def
        setLoading_def filteredUsers_of_def filteredUsers_Nil)
qed

theorem http_error_status_witness:
  "run [ChangeSearch ''lea''] mount = Some (mount\<lparr>app := setSearch ''lea'' (app mount)\<rparr>)
   \<and> pc (mount\<lparr>app := setSearch ''lea'' (app mount)\<rparr>) = AwaitFetch
   \<and> \<not> aborted (mount\<lparr>app := setSearch ''lea'' (app mount)\<rparr>)
   \<and> \<not> ok \<lparr>ok = False, status = 500\<rparr>
   \<and> (\<exists>st'. step (FetchSettled (Inr \<lparr>ok = False, status = 500\<rparr>))
               (mount\<lparr>app := setSearch ''lea'' (app mount)\<rparr>) = Some st'
           \<and> pc st' = Done \<and> \<not> loading (app st')
           \<and> error (app st') = Some ''HTTP 500''
           \<and> users (app st') = [] \<and> filteredUsers_of (app st') = [])"
proof -
  let ?st = "mount\<lparr>app := setSearch ''lea'' (app mount)\<rparr>"
  have r: "run [ChangeSearch ''lea''] mount = Some ?st"
    by (simp add: mount_def)
  have p: "pc ?st = AwaitFetch" and a: "\<not> aborted ?st"
    by (simp_all add: mount_def)
  have o: "\<not> ok \<lparr>ok = False, status = 500\<rparr>"
    by simp
  have t: "toString 500 = ''500''"
    by code_simp
  from http_error_status [OF r p a o] t r p a show ?thesis
    by simp
qed

text \<open>
  C10. While the request or the body is awaited and the signal is not aborted, a
  rejection whose \<open>name\<close> is not \<open>AbortError\<close> ends the load cycle with \<open>loading\<close>
  false and with the error message \<open>Failed to load users\<close> when the rejection has no
  message, and with its message unchanged when it has one.
\<close>

theorem fallback_error_message:
  assumes "\<not> aborted st" and "err_name err \<noteq> Some ''AbortError''"
    and "pc st = AwaitFetch \<or> pc st = AwaitJson"
  shows "\<exists>st'. step (if pc st = AwaitFetch then FetchSettled (Inl err)
                      else JsonSettled (Inl err)) st = Some st'
           \<and> pc st' = Done \<and> \<not> loading (app st')
           \<and> error (app st') = Some (case err_message err of
                                       None \<Rightarrow> ''Failed to load users'' | Some m \<Rightarrow> m)"
  using assms
  by (auto simp: rejection_admitted_def throw_def catch_block_def finally_block_def
        setError_def setLoading_def split: option.splits)

theorem fallback_error_message_witness:
  "\<not> aborted mount \<and> err_name (Obj (Some ''TypeError'') None) \<noteq> Some ''AbortError''
   \<and> err_name (Obj (Some ''TypeError'') (Some ''Failed to fetch'')) \<noteq> Some ''AbortError''
   \<and> (pc mount = AwaitFetch \<or> pc mount = AwaitJson)
   \<and> (\<exists>st'. step (FetchSettled (Inl (Obj (Some ''TypeError'') None))) mount = Some st'
           \<and> pc st' = Done \<and> \<not> loading (app st')
           \<and> error (app st') = Some ''Failed to load users'')
   \<and> (\<exists>st'. step (FetchSettled (Inl (Obj (Some ''TypeError'') (Some ''Failed to fetch''))))
               mount = Some st'
           \<and> pc st' = Done \<and> \<not> loading (app st')
           \<and> error (app st') = Some ''Failed to fetch'')"
proof -
  have a: "\<not> aborted mount" and p: "pc mount = AwaitFetch \<or> pc mount = AwaitJson"
    by (simp_all add: mount_def)
  have n: "err_name (Obj (Some ''TypeError'') None) \<noteq> Some ''AbortError''"
    and m: "err_name (Obj (Some ''TypeError'') (Some ''Failed to fetch'')) \<noteq> Some ''AbortError''"
    by simp_all
  have "pc mount = AwaitFetch"
    by (simp add: mount_def)
  with fallback_error_message [OF a n p] fallback_error_message [OF a m p] a n m p
  show ?thesis
    by simp
qed

section \<open>Claims about the render\<close>

text \<open>
  C7, as the claim states it, fails for a load that succeeds with an empty collection:
  the filtered collection is empty, \<open>loading\<close> is false and there is no error, and the
  no-results line is not shown, since line 241 asks for \<open>users.length > 0\<close>.
\<close>

theorem no_results_counterexample:
  "run [FetchSettled (Inr \<lparr>ok = True, status = 200\<rparr>), JsonSettled (Inr []), TimerFired] mount
     = Some \<lparr>app = initial\<lparr>loading := False\<rparr>, aborted = False, pc = Done\<rparr>
   \<and> \<not> loading (initial\<lparr>loading := False\<rparr>) \<and> error (initial\<lparr>loading := False\<rparr>) = None
   \<and> filteredUsers_of (initial\<lparr>loading := False\<rparr>) = []
   \<and> \<not> noResults (render (initial\<lparr>loading := False\<rparr>))"
  by (simp add: mount_def initial_def setError_def setLoading_def setUsers_def
      finally_block_def filteredUsers_of_def filteredUsers_Nil render_def)

text \<open>
  C7, amended. With \<open>loading\<close> false, no error and a source collection that is not
  empty, when filtering leaves no record the no-results line is shown and the error
  alert is not.
\<close>

theorem no_results_shown:
  assumes "\<not> loading a" and "error a = None" and "users a \<noteq> []"
    and "filteredUsers_of a = []"
  shows "noResults (render a) \<and> errorAlert (render a) = None"
  using assms by (simp add: render_def truthy_error_def)

theorem no_results_shown_witness:
  "\<not> loading \<lparr>users = [leanne, ervin], loading = False, error = None, search = ''xyz'',
               city = [], company = []\<rparr>
   \<and> error \<lparr>users = [leanne, ervin], loading = False, error = None, search = ''xyz'',
             city = [], company = []\<rparr> = None
   \<and> users \<lparr>users = [leanne, ervin], loading = False, error = None, search = ''xyz'',
             city = [], company = []\<rparr> \<noteq> []
   \<and> filteredUsers_of \<lparr>users = [leanne, ervin], loading = False, error = None,
                        search = ''xyz'', city = [], company = []\<rparr> = []
   \<and> noResults (render \<lparr>users = [leanne, ervin], loading = False, error = None,
                         search = ''xyz'', city = [], company = []\<rparr>)
   \<and> errorAlert (render \<lparr>users = [leanne, ervin], loading = False, error = None,
                          search = ''xyz'', city = [], company = []\<rparr>) = None"
proof -
  let ?a = "\<lparr>users = [leanne, ervin], loading = False, error = None, search = ''xyz'',
             city = [], company = []\<rparr>"
  have f: "filteredUsers_of ?a = []"
    by code_simp
  have l: "\<not> loading ?a" and e: "error ?a = None" and u: "users ?a \<noteq> []"
    by simp_all
  from no_results_shown [OF l e u f] f show ?thesis
    by simp
qed

end
